theory Spec2Isabelle
  imports Complex_Main "HOL-Library.AList"
begin

section \<open>Worksheets\<close>

text \<open>
  The scripts read a workbook through openpyxl. A cell value is \<open>None\<close> or one of the
  Python values openpyxl produces; only the kind of a value, its truth value and its
  being \<open>None\<close> are ever inspected by the scripts. Dates and times carry an opaque
  payload.
\<close>

datatype cell_value =
    VStr string
  | VInt int
  | VFloat real
  | VBool bool
  | VDateTime int
  | VDate int
  | VTime int

type_synonym cell = "cell_value option"

text \<open>
  A worksheet: its extents \<open>max_row\<close> and \<open>max_column\<close> and its stored cells, addressed
  from 1. \<open>ws.cell(r, c).value\<close> of a cell outside the extents is \<open>None\<close>.
\<close>

record sheet =
  max_row :: nat
  max_column :: nat
  cells :: "nat \<Rightarrow> nat \<Rightarrow> cell"

definition cell_value_at :: "sheet \<Rightarrow> nat \<Rightarrow> nat \<Rightarrow> cell" where
  "cell_value_at ws row_idx col =
     (if 1 \<le> row_idx \<and> row_idx \<le> max_row ws \<and> 1 \<le> col \<and> col \<le> max_column ws
      then cells ws row_idx col else None)"

text \<open>A worksheet given by its rows, for concrete inputs.\<close>

definition sheet_of_rows :: "nat \<Rightarrow> cell list list \<Rightarrow> sheet" where
  "sheet_of_rows ncols rows =
     \<lparr> max_row = max 1 (length rows), max_column = max 1 ncols,
       cells = (\<lambda>r c. if 1 \<le> r \<and> r \<le> length rows \<and> 1 \<le> c \<and> c \<le> length (rows ! (r - 1))
                       then rows ! (r - 1) ! (c - 1) else None) \<rparr>"

text \<open>
  Exceptions. \<open>LibraryError\<close> stands for an exception raised inside a library call
  (openpyxl, pandas, json), with its message.
\<close>

datatype py_error = KeyError string | AttributeError | TypeError | LibraryError string

text \<open>\<open>wb[sheet_name]\<close>: a workbook maps sheet names to worksheets.\<close>

type_synonym workbook = "string \<Rightarrow> sheet option"

section \<open>Python helpers\<close>

text \<open>\<open>type(v).__name__\<close>\<close>

fun type_name :: "cell_value \<Rightarrow> string" where
  "type_name (VStr s) = ''str''"
| "type_name (VInt i) = ''int''"
| "type_name (VFloat x) = ''float''"
| "type_name (VBool b) = ''bool''"
| "type_name (VDateTime t) = ''datetime''"
| "type_name (VDate t) = ''date''"
| "type_name (VTime t) = ''time''"

text \<open>The truth value that \<open>v or d\<close> tests.\<close>

fun truthy :: "cell \<Rightarrow> bool" where
  "truthy None = False"
| "truthy (Some (VStr s)) = (s \<noteq> [])"
| "truthy (Some (VInt i)) = (i \<noteq> 0)"
| "truthy (Some (VFloat x)) = (x \<noteq> 0)"
| "truthy (Some (VBool b)) = b"
| "truthy (Some (VDateTime t)) = True"
| "truthy (Some (VDate t)) = True"
| "truthy (Some (VTime t)) = True"

text \<open>Decimal rendering of a natural number, as an f-string does.\<close>

definition digit_char :: "nat \<Rightarrow> char" where
  "digit_char d = ''0123456789'' ! d"

fun str_nat :: "nat \<Rightarrow> string" where
  "str_nat n = (if n < 10 then [digit_char n] else str_nat (n div 10) @ [digit_char (n mod 10)])"

declare str_nat.simps [simp del]

definition placeholder :: "nat \<Rightarrow> string" where
  "placeholder k = ''Column_'' @ str_nat k"

text \<open>\<open>any(v is not None for v in row_data)\<close>\<close>

definition any_not_none :: "cell list \<Rightarrow> bool" where
  "any_not_none row_data = list_ex (\<lambda>v. v \<noteq> None) row_data"

text \<open>
  A Python \<open>set\<close> of strings is kept as the list of its elements, without repetition.
  The order in which \<open>list(s)\<close> enumerates a set of strings is the order of the hash
  table's slots; string hashes are seeded per interpreter process, so the order is a
  parameter of a run: \<open>slot\<close> gives the position of each string in this process.
\<close>

definition set_add :: "string \<Rightarrow> string list \<Rightarrow> string list" where
  "set_add x s = (if x \<in> set s then s else s @ [x])"

definition list_of_set :: "(string \<Rightarrow> nat) \<Rightarrow> string list \<Rightarrow> string list" where
  "list_of_set slot s = sort_key slot s"

section \<open>analyze\_excel.py\<close>

record column_type =
  column :: cell_value
  types :: "string list"

record sheet_info =
  sheet_name :: string
  total_rows :: nat
  total_columns :: nat
  headers :: "cell list"
  sample_rows :: "cell list list"
  column_types :: "column_type list"

text \<open>\<open>[ws.cell(row_idx, col).value for col in range(1, ws.max_column + 1)]\<close>\<close>

definition row_data :: "sheet \<Rightarrow> nat \<Rightarrow> cell list" where
  "row_data ws row_idx = map (\<lambda>col. cell_value_at ws row_idx col) [1..<max_column ws + 1]"

text \<open>
  The header loop over the given row indices: the first row with a cell that is not
  \<open>None\<close> ends the loop (\<open>break\<close>) with that row's index and cells; \<open>None\<close> when the
  loop runs to its end.
\<close>

fun header_scan :: "sheet \<Rightarrow> nat list \<Rightarrow> (nat \<times> cell list) option" where
  "header_scan ws [] = None"
| "header_scan ws (row_idx # rest) =
     (if any_not_none (row_data ws row_idx) then Some (row_idx, row_data ws row_idx)
      else header_scan ws rest)"

text \<open>\<open>for row_idx in range(1, min(depth, ws.max_row + 1))\<close>; the script has depth 10.\<close>

definition locate_header :: "sheet \<Rightarrow> nat \<Rightarrow> (nat \<times> cell list) option" where
  "locate_header ws depth = header_scan ws [1..<min depth (max_row ws + 1)]"

text \<open>The values of \<open>result["headers"]\<close> and \<open>header_row_idx\<close> after the header loop.\<close>

definition find_header :: "sheet \<Rightarrow> cell list \<times> nat" where
  "find_header ws =
     (case locate_header ws 10 of
        None \<Rightarrow> ([], 1)
      | Some (row_idx, rd) \<Rightarrow> (rd, row_idx))"

definition collect_sample_rows :: "sheet \<Rightarrow> nat \<Rightarrow> nat \<Rightarrow> cell list list" where
  "collect_sample_rows ws header_row_idx max_data_rows =
     filter any_not_none
       (map (row_data ws)
          [header_row_idx + 1..<min (header_row_idx + 1 + max_data_rows) (max_row ws + 1)])"

text \<open>The rows the type loop of a column reads.\<close>

definition type_window :: "sheet \<Rightarrow> nat \<Rightarrow> nat list" where
  "type_window ws header_row_idx = [header_row_idx + 1..<min (header_row_idx + 20) (max_row ws + 1)]"

definition observe :: "sheet \<Rightarrow> nat \<Rightarrow> nat \<Rightarrow> string list \<Rightarrow> string list" where
  "observe ws col_idx row_idx col_types =
     (case cell_value_at ws row_idx col_idx of
        None \<Rightarrow> col_types
      | Some cell_val \<Rightarrow> set_add (type_name cell_val) col_types)"

definition col_types_of :: "sheet \<Rightarrow> nat \<Rightarrow> nat \<Rightarrow> string list" where
  "col_types_of ws header_row_idx col_idx =
     fold (observe ws col_idx) (type_window ws header_row_idx) []"

definition infer_types :: "(string \<Rightarrow> nat) \<Rightarrow> sheet \<Rightarrow> nat \<Rightarrow> nat \<Rightarrow> string list" where
  "infer_types slot ws header_row_idx col_idx =
     (let col_types = col_types_of ws header_row_idx col_idx
      in if col_types \<noteq> [] then list_of_set slot col_types else [''Empty/None''])"

definition col_name :: "sheet \<Rightarrow> nat \<Rightarrow> nat \<Rightarrow> cell_value" where
  "col_name ws header_row_idx col_idx =
     (case cell_value_at ws header_row_idx col_idx of
        Some v \<Rightarrow> if truthy (Some v) then v else VStr (placeholder col_idx)
      | None \<Rightarrow> VStr (placeholder col_idx))"

definition analyze_ws :: "(string \<Rightarrow> nat) \<Rightarrow> string \<Rightarrow> sheet \<Rightarrow> nat \<Rightarrow> sheet_info" where
  "analyze_ws slot sname ws max_data_rows =
     (let (hdrs, header_row_idx) = find_header ws
      in \<lparr> sheet_name = sname,
           total_rows = max_row ws,
           total_columns = max_column ws,
           headers = hdrs,
           sample_rows = collect_sample_rows ws header_row_idx max_data_rows,
           column_types =
             map (\<lambda>col_idx. \<lparr> column = col_name ws header_row_idx col_idx,
                               types = infer_types slot ws header_row_idx col_idx \<rparr>)
               [1..<max_column ws + 1] \<rparr>)"

definition analyze_sheet ::
  "(string \<Rightarrow> nat) \<Rightarrow> workbook \<Rightarrow> string \<Rightarrow> nat \<Rightarrow> py_error + sheet_info" where
  "analyze_sheet slot wb sname max_data_rows =
     (case wb sname of
        None \<Rightarrow> Inl (KeyError sname)
      | Some ws \<Rightarrow> Inr (analyze_ws slot sname ws max_data_rows))"

record column_entry =
  name :: cell
  data_type :: string
  description :: string

record sheet_summary =
  columns :: "column_entry list"
  summary_sample_rows :: "cell list list"
  summary_total_rows :: nat
  key_purpose :: string

text \<open>The \<open>columns\<close> comprehension of the final response.\<close>

definition response_columns :: "sheet_info \<Rightarrow> column_entry list" where
  "response_columns info =
     map (\<lambda>i. \<lparr> name = (if i < length (headers info) then headers info ! i
                         else Some (VStr (placeholder (i + 1)))),
                 data_type = (if i < length (column_types info) \<and> types (column_types info ! i) \<noteq> []
                              then hd (types (column_types info ! i)) else ''Unknown''),
                 description = '''' \<rparr>)
       [0..<length (headers info)]"

definition sheet_response :: "sheet_info \<Rightarrow> string \<Rightarrow> sheet_summary" where
  "sheet_response info purpose =
     \<lparr> columns = response_columns info,
       summary_sample_rows = take 3 (sample_rows info),
       summary_total_rows = total_rows info,
       key_purpose = purpose \<rparr>"



section \<open>analyze\_excel\_final.py\<close>

text \<open>
  The header rows are fixed by hand: row 2 for the sheet msme, row 3 for the sheet
  charter. Reading a header row below \<open>max_row\<close> yields \<open>None\<close> cells; openpyxl then
  extends \<open>max_row\<close> to that row, which no later comparison of the script can observe,
  since all of them are against rows below the header row.
\<close>

definition msme_header_row :: nat where "msme_header_row = 2"
definition msme_data_start :: nat where "msme_data_start = 3"
definition charter_header_row :: nat where "charter_header_row = 3"
definition charter_data_start :: nat where "charter_data_start = 4"

text \<open>The header loop: the values of the header row's cells that are not \<open>None\<close>.\<close>

definition collect_headers :: "sheet \<Rightarrow> nat \<Rightarrow> cell_value list" where
  "collect_headers ws header_row =
     List.map_filter (\<lambda>col. cell_value_at ws header_row col) [1..<max_column ws + 1]"

text \<open>
  The sample loop over the listed rows: a row within \<open>max_row\<close> is read over columns
  1 to the number of headers and kept when one of these cells is not \<open>None\<close>.
\<close>

definition sample_row :: "sheet \<Rightarrow> nat \<Rightarrow> nat \<Rightarrow> cell list" where
  "sample_row ws n_headers row_idx = map (\<lambda>col. cell_value_at ws row_idx col) [1..<n_headers + 1]"

definition collect_samples :: "sheet \<Rightarrow> nat list \<Rightarrow> nat \<Rightarrow> cell list list" where
  "collect_samples ws row_idxs n_headers =
     filter any_not_none
       (map (sample_row ws n_headers) (filter (\<lambda>row_idx. row_idx \<le> max_row ws) row_idxs))"

definition count_data_rows :: "sheet \<Rightarrow> nat \<Rightarrow> nat" where
  "count_data_rows ws data_start =
     length (filter any_not_none (map (row_data ws) [data_start..<max_row ws + 1]))"

definition msme_headers :: "sheet \<Rightarrow> cell_value list" where
  "msme_headers ws_msme = collect_headers ws_msme msme_header_row"

definition msme_samples :: "sheet \<Rightarrow> cell list list" where
  "msme_samples ws_msme = collect_samples ws_msme [3, 5, 10] (length (msme_headers ws_msme))"

definition msme_data_rows :: "sheet \<Rightarrow> nat" where
  "msme_data_rows ws_msme = count_data_rows ws_msme msme_data_start"

definition charter_headers :: "sheet \<Rightarrow> cell_value list" where
  "charter_headers ws_charter = collect_headers ws_charter charter_header_row"

definition charter_samples :: "sheet \<Rightarrow> cell list list" where
  "charter_samples ws_charter =
     collect_samples ws_charter [4, 6, 8] (length (charter_headers ws_charter))"

definition charter_data_rows :: "sheet \<Rightarrow> nat" where
  "charter_data_rows ws_charter = count_data_rows ws_charter charter_data_start"

text \<open>
  The \<open>columns\<close> comprehension, with the data type text and the description of column
  \<open>i\<close> as the two sheets give them.
\<close>

definition final_columns :: "cell_value list \<Rightarrow> string \<Rightarrow> (nat \<Rightarrow> string) \<Rightarrow> column_entry list" where
  "final_columns hdrs dtype_text descr =
     map (\<lambda>i. \<lparr> name = Some (if i < length hdrs then hdrs ! i else VStr (placeholder (i + 1))),
                 data_type = dtype_text,
                 description = descr i \<rparr>)
       [0..<length hdrs]"

definition msme_columns :: "sheet \<Rightarrow> column_entry list" where
  "msme_columns ws_msme =
     final_columns (msme_headers ws_msme) ''string (with various content types)''
       (\<lambda>i. ''Each column represents a different aspect of the MSME incentive scheme'')"

definition charter_columns :: "sheet \<Rightarrow> column_entry list" where
  "charter_columns ws_charter =
     final_columns (charter_headers ws_charter) ''string (text descriptions)''
       (\<lambda>i. ''Column '' @ str_nat (i + 1) @ '' of charter sheet'')"

record final_sheet =
  final_sheet_name :: string
  title :: cell
  final_columns_of :: "column_entry list"
  final_sample_rows :: "cell list list"
  final_total_rows :: nat
  final_total_columns :: nat

record final_response =
  final_sheets :: "string list"
  final_msme_sheet :: final_sheet
  final_charter_sheet :: final_sheet

definition msme_final :: "sheet \<Rightarrow> final_sheet" where
  "msme_final ws_msme =
     \<lparr> final_sheet_name = ''msme'',
       title = cell_value_at ws_msme 1 1,
       final_columns_of = msme_columns ws_msme,
       final_sample_rows = take 2 (msme_samples ws_msme),
       final_total_rows = msme_data_rows ws_msme,
       final_total_columns = length (msme_headers ws_msme) \<rparr>"

definition charter_final :: "sheet \<Rightarrow> final_sheet" where
  "charter_final ws_charter =
     \<lparr> final_sheet_name = ''charter'',
       title = cell_value_at ws_charter 1 1,
       final_columns_of = charter_columns ws_charter,
       final_sample_rows = take 2 (charter_samples ws_charter),
       final_total_rows = charter_data_rows ws_charter,
       final_total_columns = length (charter_headers ws_charter) \<rparr>"

text \<open>
  \<open>json.dumps\<close> is called without \<open>default\<close> here: a date or time among the title, the
  column names or the sampled cells raises \<open>TypeError\<close>.
\<close>

fun json_serializable :: "cell \<Rightarrow> bool" where
  "json_serializable (Some (VDateTime t)) = False"
| "json_serializable (Some (VDate t)) = False"
| "json_serializable (Some (VTime t)) = False"
| "json_serializable v = True"

definition final_sheet_serializable :: "final_sheet \<Rightarrow> bool" where
  "final_sheet_serializable fs =
     (json_serializable (title fs) \<and>
      list_all (\<lambda>c. json_serializable (name c)) (final_columns_of fs) \<and>
      list_all (list_all json_serializable) (final_sample_rows fs))"

text \<open>
  The whole script. The fixed texts \<open>key_purpose\<close> and \<open>relationships\<close> of the response
  do not depend on the workbook and are left out.
\<close>

definition analyze_excel_final :: "string list \<Rightarrow> workbook \<Rightarrow> py_error + final_response" where
  "analyze_excel_final all_sheets wb =
     (case wb ''msme'' of
        None \<Rightarrow> Inl (KeyError ''msme'')
      | Some ws_msme \<Rightarrow>
          (case wb ''charter'' of
             None \<Rightarrow> Inl (KeyError ''charter'')
           | Some ws_charter \<Rightarrow>
               (let resp = \<lparr> final_sheets = all_sheets,
                              final_msme_sheet = msme_final ws_msme,
                              final_charter_sheet = charter_final ws_charter \<rparr>
                in if final_sheet_serializable (final_msme_sheet resp) \<and>
                      final_sheet_serializable (final_charter_sheet resp)
                   then Inr resp else Inl TypeError)))"

section \<open>analyze\_excel\_comprehensive.py\<close>

text \<open>
  A dataframe as \<open>pd.read_excel\<close> returns it: the column labels with their dtypes, and
  the rows. A label is the value of a header cell: a string, or a number or date when the
  header cell holds one. A missing value is \<open>None\<close>.
\<close>

datatype dtype = DObject | DInt64 | DFloat64 | DBool | DDatetime64

fun str_dtype :: "dtype \<Rightarrow> string" where
  "str_dtype DObject = ''object''"
| "str_dtype DInt64 = ''int64''"
| "str_dtype DFloat64 = ''float64''"
| "str_dtype DBool = ''bool''"
| "str_dtype DDatetime64 = ''datetime64[ns]''"

record dataframe =
  df_columns :: "(cell_value \<times> dtype) list"
  df_rows :: "cell list list"

text \<open>
  The values of the column at position \<open>j\<close>. \<open>read_excel\<close> renames repeated header
  texts, so the labels of a dataframe differ from each other and \<open>df[col]\<close> is the column
  at the position of the label \<open>col\<close>.
\<close>

definition column_values :: "dataframe \<Rightarrow> nat \<Rightarrow> cell list" where
  "column_values df j = map (\<lambda>row. if j < length row then row ! j else None) (df_rows df)"

text \<open>
  \<open>str.lower\<close>. Names are byte strings here and the letters A to Z are folded; every
  keyword of the script is made of the letters a to z.
\<close>

definition lower_char :: "char \<Rightarrow> char" where
  "lower_char c =
     (case map_of (zip ''ABCDEFGHIJKLMNOPQRSTUVWXYZ'' ''abcdefghijklmnopqrstuvwxyz'') c of
        Some l \<Rightarrow> l
      | None \<Rightarrow> c)"

definition lower :: "string \<Rightarrow> string" where
  "lower s = map lower_char s"

text \<open>\<open>keyword in col_lower\<close>: the keyword occurs as a substring.\<close>

fun contains :: "string \<Rightarrow> string \<Rightarrow> bool" where
  "contains keyword [] = (keyword = [])"
| "contains keyword (c # cs) =
     (take (length keyword) (c # cs) = keyword \<or> contains keyword cs)"

definition any_keyword :: "string list \<Rightarrow> string \<Rightarrow> bool" where
  "any_keyword keywords col_lower = list_ex (\<lambda>keyword. contains keyword col_lower) keywords"

definition location_keywords :: "string list" where
  "location_keywords = [''location'', ''place'', ''area'', ''region'', ''district'', ''state'', ''address'']"

definition crop_keywords :: "string list" where
  "crop_keywords = [''crop'', ''variety'', ''seed'', ''seedling'', ''type'', ''name'']"

definition stock_keywords :: "string list" where
  "stock_keywords = [''stock'', ''quantity'', ''qty'', ''count'', ''amount'', ''units'']"

definition outlet_keywords :: "string list" where
  "outlet_keywords = [''outlet'', ''store'', ''shop'', ''seller'', ''vendor'']"

text \<open>
  The summary of a column. \<open>sample_values\<close> holds the values that \<open>str\<close> is applied to;
  \<open>min\<close>, \<open>max\<close> and \<open>mean\<close> are taken over the reals.
\<close>

datatype pattern =
    Categorical (unique_count: nat) (sample_values: "cell list")
  | Numeric (pmin: "real option") (pmax: "real option") (pmean: "real option") (non_null_count: nat)

text \<open>\<open>float(x)\<close> of a column's value: a date or time raises \<open>TypeError\<close>.\<close>

fun to_float :: "cell_value \<Rightarrow> py_error + real" where
  "to_float (VInt i) = Inr (of_int i)"
| "to_float (VFloat x) = Inr x"
| "to_float (VBool b) = Inr (if b then 1 else 0)"
| "to_float (VStr s) = Inl (LibraryError ''could not convert string to float'')"
| "to_float (VDateTime t) = Inl TypeError"
| "to_float (VDate t) = Inl TypeError"
| "to_float (VTime t) = Inl TypeError"

fun floats_of :: "cell_value list \<Rightarrow> py_error + real list" where
  "floats_of [] = Inr []"
| "floats_of (v # vs) =
     (case to_float v of
        Inl e \<Rightarrow> Inl e
      | Inr x \<Rightarrow> (case floats_of vs of Inl e \<Rightarrow> Inl e | Inr xs \<Rightarrow> Inr (x # xs)))"

text \<open>\<open>unique()\<close>: the distinct values in order of first appearance.\<close>

definition unique_values :: "cell list \<Rightarrow> cell list" where
  "unique_values vs = fold (\<lambda>v acc. if v \<in> set acc then acc else acc @ [v]) vs []"

definition summarize :: "dtype \<Rightarrow> cell list \<Rightarrow> py_error + pattern" where
  "summarize d vs =
     (if d = DObject
      then Inr (Categorical (length (unique_values (filter (\<lambda>v. v \<noteq> None) vs)))
                  (take 10 (unique_values vs)))
      else if list_ex (\<lambda>v. v \<noteq> None) vs
      then (case floats_of (List.map_filter (\<lambda>v. v) vs) of
              Inl e \<Rightarrow> Inl e
            | Inr xs \<Rightarrow>
                Inr (Numeric (Some (fold min (tl xs) (hd xs))) (Some (fold max (tl xs) (hd xs)))
                       (Some (sum_list xs / of_nat (length xs))) (length xs)))
      else Inr (Numeric None None None 0))"

text \<open>The state of the column loop: the patterns and the four lists of column labels.\<close>

record fields =
  patterns :: "(cell_value \<times> pattern) list"
  location_cols :: "cell_value list"
  crop_cols :: "cell_value list"
  stock_cols :: "cell_value list"
  outlet_cols :: "cell_value list"

definition no_fields :: fields where
  "no_fields = \<lparr> patterns = [], location_cols = [], crop_cols = [], stock_cols = [], outlet_cols = [] \<rparr>"

text \<open>
  One turn of the column loop, for the column at position \<open>j\<close>. \<open>col.lower()\<close> raises
  \<open>AttributeError\<close> for a label that is not a string. Each of the four tests appends the
  label to its own list when a keyword of the bucket occurs in the folded name.
\<close>

definition append_if :: "bool \<Rightarrow> 'a \<Rightarrow> 'a list \<Rightarrow> 'a list" where
  "append_if b x xs = (if b then xs @ [x] else xs)"

definition classify_column :: "dataframe \<Rightarrow> fields \<Rightarrow> nat \<Rightarrow> py_error + fields" where
  "classify_column df st j =
     (let (col, d) = df_columns df ! j in
      case col of
        VStr s \<Rightarrow>
          (let col_lower = lower s;
               st' = st\<lparr>
                 location_cols :=
                   append_if (any_keyword location_keywords col_lower) col (location_cols st),
                 crop_cols :=
                   append_if (any_keyword crop_keywords col_lower) col (crop_cols st),
                 stock_cols :=
                   append_if (any_keyword stock_keywords col_lower) col (stock_cols st),
                 outlet_cols :=
                   append_if (any_keyword outlet_keywords col_lower) col (outlet_cols st)\<rparr>
           in case summarize d (column_values df j) of
                Inl e \<Rightarrow> Inl e
              | Inr p \<Rightarrow> Inr (st'\<lparr>patterns := AList.update col p (patterns st')\<rparr>))
      | _ \<Rightarrow> Inl AttributeError)"

fun column_loop :: "dataframe \<Rightarrow> nat list \<Rightarrow> fields \<Rightarrow> py_error + fields" where
  "column_loop df [] st = Inr st"
| "column_loop df (j # js) st =
     (case classify_column df st j of
        Inl e \<Rightarrow> Inl e
      | Inr st' \<Rightarrow> column_loop df js st')"

record sheet_analysis =
  dimensions :: "nat \<times> nat"
  column_names :: "cell_value list"
  data_types :: "(cell_value \<times> string) list"
  analysis_sample_rows :: "cell list list"
  identified_fields :: fields

text \<open>The body of the \<open>try\<close> block once the sheet is read.\<close>

definition analyze_dataframe :: "dataframe \<Rightarrow> py_error + sheet_analysis" where
  "analyze_dataframe df =
     (let num_rows = length (df_rows df);
          num_cols = length (df_columns df);
          dtype_info = fold (\<lambda>(col, d) acc. AList.update col (str_dtype d) acc) (df_columns df) [];
          sample = take 5 (df_rows df)
      in case column_loop df [0..<length (df_columns df)] no_fields of
           Inl e \<Rightarrow> Inl e
         | Inr st \<Rightarrow>
             Inr \<lparr> dimensions = (num_rows, num_cols),
                   column_names = map fst (df_columns df),
                   data_types = dtype_info,
                   analysis_sample_rows = sample,
                   identified_fields = st \<rparr>)"

text \<open>
  An entry of the report's \<open>sheets\<close>: the analysis of the sheet, or the dictionary with
  the one key \<open>error\<close> and the text \<open>str(e)\<close> of the caught exception \<open>e\<close>.
\<close>

datatype sheet_entry = Analysis sheet_analysis | Error py_error

record analysis =
  file_path :: string
  sheet_names :: "string list"
  analysis_sheets :: "(string \<times> sheet_entry) list"

text \<open>
  What a run finds outside the script: whether the input path exists, what
  \<open>load_workbook\<close> and \<open>read_excel\<close> return or raise, and whether opening the output file
  and \<open>json.dump\<close> raise.
\<close>

record env =
  path_exists :: bool
  load_workbook :: "py_error + string list"
  read_excel :: "string \<Rightarrow> py_error + dataframe"
  open_output :: "py_error option"
  json_dump :: "analysis \<Rightarrow> py_error option"

text \<open>The input path; \<open>sep\<close> is the backslash of the Windows path.\<close>

definition sep :: string where
  "sep = [CHR 0x5C]"

definition excel_path :: string where
  "excel_path = ''c:'' @ sep @ ''Users'' @ sep @ ''Zenith Joshua'' @ sep @ ''Desktop'' @ sep @
     ''vict'' @ sep @ ''my-app'' @ sep @ ''data'' @ sep @ ''Farms Stock Report.xlsx''"

text \<open>The \<open>try\<close> block of one sheet.\<close>

definition try_sheet :: "env \<Rightarrow> string \<Rightarrow> py_error + sheet_analysis" where
  "try_sheet e sname =
     (case read_excel e sname of
        Inl err \<Rightarrow> Inl err
      | Inr df \<Rightarrow> analyze_dataframe df)"

text \<open>One turn of the sheet loop: the result, or the caught exception, is stored under the sheet's name.\<close>

definition sheet_step :: "env \<Rightarrow> string \<Rightarrow> (string \<times> sheet_entry) list \<Rightarrow> (string \<times> sheet_entry) list" where
  "sheet_step e sname acc =
     (case try_sheet e sname of
        Inr sheet_result \<Rightarrow> AList.update sname (Analysis sheet_result) acc
      | Inl err \<Rightarrow> AList.update sname (Error err) acc)"

definition analyze_all :: "env \<Rightarrow> string list \<Rightarrow> analysis" where
  "analyze_all e names =
     \<lparr> file_path = excel_path, sheet_names = names,
       analysis_sheets = fold (sheet_step e) names [] \<rparr>"

text \<open>
  The outcome of a run: the exit status, the error line printed by the existence check,
  the state of the output file, and the report printed at the end. An exception that
  nothing catches ends the process with status 1. The progress lines are not recorded.
\<close>

datatype file_state = NotWritten | Truncated | Written analysis

record outcome =
  exit_status :: nat
  error_line :: "string option"
  output_file :: file_state
  printed_report :: "analysis option"

definition comprehensive :: "env \<Rightarrow> outcome" where
  "comprehensive e =
     (if \<not> path_exists e
      then \<lparr> exit_status = 1, error_line = Some (''Error: File not found at '' @ excel_path),
             output_file = NotWritten, printed_report = None \<rparr>
      else case load_workbook e of
        Inl err \<Rightarrow> \<lparr> exit_status = 1, error_line = None, output_file = NotWritten,
                      printed_report = None \<rparr>
      | Inr names \<Rightarrow>
          (let a = analyze_all e names in
           case open_output e of
             Some err \<Rightarrow> \<lparr> exit_status = 1, error_line = None, output_file = NotWritten,
                            printed_report = None \<rparr>
           | None \<Rightarrow>
               (case json_dump e a of
                  Some err \<Rightarrow> \<lparr> exit_status = 1, error_line = None, output_file = Truncated,
                                 printed_report = None \<rparr>
                | None \<Rightarrow> \<lparr> exit_status = 0, error_line = None, output_file = Written a,
                             printed_report = Some a \<rparr>)))"

section \<open>Specification vocabulary and example inputs\<close>

text \<open>A row has content when one of its cells, over the sheet's full column span, is not \<open>None\<close>.\<close>

definition row_has_content :: "sheet \<Rightarrow> nat \<Rightarrow> bool" where
  "row_has_content ws row_idx = (\<exists>col\<in>{1..max_column ws}. cell_value_at ws row_idx col \<noteq> None)"

text \<open>A sheet whose first row is empty and whose second row has one cell with content.\<close>

definition ex_gap_sheet :: sheet where
  "ex_gap_sheet = sheet_of_rows 2
     [[None, None],
      [Some (VStr ''Name''), None],
      [Some (VInt 1), Some (VStr ''x'')]]"


text \<open>
  Two sheets of ten rows and two columns: one whose only content is in row 10, and one
  without content.
\<close>

definition ex_late_sheet :: sheet where
  "ex_late_sheet = \<lparr> max_row = 10, max_column = 2,
     cells = (\<lambda>r c. if r = 10 \<and> c = 1 then Some (VStr ''late'') else None) \<rparr>"

definition ex_blank_sheet :: sheet where
  "ex_blank_sheet = \<lparr> max_row = 10, max_column = 2, cells = (\<lambda>r c. None) \<rparr>"

text \<open>The number of cells of a row that are not \<open>None\<close>.\<close>

definition count_non_empty :: "cell list \<Rightarrow> nat" where
  "count_non_empty row = length (filter (\<lambda>v. v \<noteq> None) row)"

text \<open>Two orders of set enumeration: one lists \<open>str\<close> first, the other lists it last.\<close>

definition slot_a :: "string \<Rightarrow> nat" where
  "slot_a s = (if s = ''str'' then 0 else 1)"


text \<open>
  The sheet msme of the scenario: a title in row 1, six header strings in row 2, data
  from row 3 on; once with two rows of data and once with three.
\<close>

definition ex_msme_short :: sheet where
  "ex_msme_short = sheet_of_rows 6
     [[Some (VStr ''INCENTIVE SCHEMES''), None, None, None, None, None],
      [Some (VStr ''S.No''), Some (VStr ''Scheme''), Some (VStr ''Department''),
       Some (VStr ''Benefit''), Some (VStr ''Eligibility''), Some (VStr ''Contact'')],
      [Some (VInt 1), Some (VStr ''Capital subsidy''), Some (VStr ''MSME''),
       Some (VStr ''25 percent''), Some (VStr ''Micro units''), Some (VStr ''DIC'')],
      [Some (VInt 2), Some (VStr ''Power tariff''), Some (VStr ''MSME''),
       Some (VStr ''20 percent''), Some (VStr ''Small units''), Some (VStr ''DIC'')]]"

definition ex_msme_long :: sheet where
  "ex_msme_long = sheet_of_rows 6
     [[Some (VStr ''INCENTIVE SCHEMES''), None, None, None, None, None],
      [Some (VStr ''S.No''), Some (VStr ''Scheme''), Some (VStr ''Department''),
       Some (VStr ''Benefit''), Some (VStr ''Eligibility''), Some (VStr ''Contact'')],
      [Some (VInt 1), Some (VStr ''Capital subsidy''), Some (VStr ''MSME''),
       Some (VStr ''25 percent''), Some (VStr ''Micro units''), Some (VStr ''DIC'')],
      [Some (VInt 2), Some (VStr ''Power tariff''), Some (VStr ''MSME''),
       Some (VStr ''20 percent''), Some (VStr ''Small units''), Some (VStr ''DIC'')],
      [Some (VInt 3), Some (VStr ''Generator subsidy''), Some (VStr ''MSME''),
       Some (VStr ''25 percent''), Some (VStr ''All units''), Some (VStr ''DIC'')]]"



text \<open>Two dataframes whose third columns have the same name up to case and different contents.\<close>

definition ex_df :: dataframe where
  "ex_df = \<lparr> df_columns = [(VStr ''Price'', DFloat64), (VStr ''District'', DObject),
                             (VStr ''Seed Stock'', DInt64)],
             df_rows = [[Some (VFloat 12.5), Some (VStr ''Salem''), Some (VInt 40)],
                        [None, Some (VStr ''Erode''), Some (VInt 15)]] \<rparr>"

definition ex_df_upper :: dataframe where
  "ex_df_upper = \<lparr> df_columns = [(VStr ''SEED STOCK'', DObject)],
                   df_rows = [[Some (VStr ''low'')], [Some (VStr ''high'')], [None]] \<rparr>"

text \<open>
  A dataframe whose second label is a number, and three runs: a workbook of three sheets
  of which the second has that dataframe, an input file that is missing, and an input
  file that exists and that \<open>load_workbook\<close> cannot read.
\<close>

definition ex_df_year :: dataframe where
  "ex_df_year = \<lparr> df_columns = [(VStr ''Crop'', DObject), (VInt 2024, DInt64)],
                  df_rows = [[Some (VStr ''Paddy''), Some (VInt 7)]] \<rparr>"

definition ex_read_excel :: "string \<Rightarrow> py_error + dataframe" where
  "ex_read_excel sname =
     (if sname = ''Stock'' then Inr ex_df
      else if sname = ''Summary'' then Inr ex_df_year
      else if sname = ''Outlets'' then Inr ex_df_upper
      else Inl (LibraryError ''Worksheet not found''))"

definition ex_dump_ok :: "analysis \<Rightarrow> py_error option" where
  "ex_dump_ok a = None"

definition ex_env :: env where
  "ex_env = \<lparr> path_exists = True,
               load_workbook = Inr [''Stock'', ''Summary'', ''Outlets''],
               read_excel = ex_read_excel,
               open_output = None,
               json_dump = ex_dump_ok \<rparr>"

definition ex_env_missing :: env where
  "ex_env_missing = ex_env \<lparr> path_exists := False \<rparr>"

definition ex_env_unreadable :: env where
  "ex_env_unreadable = ex_env \<lparr> load_workbook := Inl (LibraryError ''File is not a zip file'') \<rparr>"




section \<open>The header locator\<close>

lemma any_not_none_row_data:
  "any_not_none (row_data ws r) = row_has_content ws r"
  by (auto simp: any_not_none_def row_data_def row_has_content_def list_ex_iff)

lemma header_scan_None:
  "header_scan ws rows = None \<longleftrightarrow> (\<forall>r\<in>set rows. \<not> row_has_content ws r)"
  by (induction rows) (simp_all add: any_not_none_row_data)

lemma header_scan_upt_Some:
  "header_scan ws [lo..<hi] = Some (r, rd) \<longleftrightarrow>
     lo \<le> r \<and> r < hi \<and> row_has_content ws r \<and>
     (\<forall>r'. lo \<le> r' \<and> r' < r \<longrightarrow> \<not> row_has_content ws r') \<and> rd = row_data ws r"
proof (induction "hi - lo" arbitrary: lo)
  case 0
  then show ?case by auto
next
  case (Suc n)
  then have lt: "lo < hi" and n: "n = hi - Suc lo" by auto
  have unfold: "[lo..<hi] = lo # [Suc lo..<hi]" using lt by (simp add: upt_conv_Cons)
  show ?case
  proof (cases "row_has_content ws lo")
    case True
    have L: "header_scan ws [lo..<hi] = Some (lo, row_data ws lo)"
      unfolding unfold using True by (simp add: any_not_none_row_data)
    have "(lo \<le> r \<and> r < hi \<and> row_has_content ws r \<and>
     (\<forall>r'. lo \<le> r' \<and> r' < r \<longrightarrow> \<not> row_has_content ws r') \<and> rd = row_data ws r)
       \<longleftrightarrow> (r = lo \<and> rd = row_data ws lo)"
    proof (cases "r = lo")
      case True
      then show ?thesis using lt \<open>row_has_content ws lo\<close> by auto
    next
      case False
      then have "lo \<le> r \<Longrightarrow> lo < r" by simp
      then show ?thesis using False \<open>row_has_content ws lo\<close> by blast
    qed
    then show ?thesis unfolding L by auto
  next
    case False
    have "header_scan ws [lo..<hi] = header_scan ws [Suc lo..<hi]"
      unfolding unfold using False by (simp add: any_not_none_row_data)
    moreover have "header_scan ws [Suc lo..<hi] = Some (r, rd) \<longleftrightarrow>
       Suc lo \<le> r \<and> r < hi \<and> row_has_content ws r \<and>
       (\<forall>r'. Suc lo \<le> r' \<and> r' < r \<longrightarrow> \<not> row_has_content ws r') \<and> rd = row_data ws r"
      using Suc.hyps(1)[OF n] .
    moreover have "(Suc lo \<le> r \<and> r < hi \<and> row_has_content ws r \<and>
       (\<forall>r'. Suc lo \<le> r' \<and> r' < r \<longrightarrow> \<not> row_has_content ws r') \<and> rd = row_data ws r)
       \<longleftrightarrow> (lo \<le> r \<and> r < hi \<and> row_has_content ws r \<and>
     (\<forall>r'. lo \<le> r' \<and> r' < r \<longrightarrow> \<not> row_has_content ws r') \<and> rd = row_data ws r)"
      (is "?A \<longleftrightarrow> ?B")
    proof
      assume a: ?A
      have "\<not> row_has_content ws r'" if "lo \<le> r' \<and> r' < r" for r'
      proof (cases "r' = lo")
        case True then show ?thesis using False by simp
      next
        case F: False
        then have "Suc lo \<le> r'" using that by simp
        then show ?thesis using a that by blast
      qed
      then show ?B using a by simp
    next
      assume b: ?B
      have "r \<noteq> lo" using b False by auto
      then have "Suc lo \<le> r" using b by simp
      moreover have "\<not> row_has_content ws r'" if "Suc lo \<le> r' \<and> r' < r" for r'
        using b that by simp
      ultimately show ?A using b by simp
    qed
    ultimately show ?thesis by simp
  qed
qed

text \<open>
  Claim C1. For every sheet and every scan depth (the exclusive bound of the scanned
  range, 10 in the script), the header locator returns the index and cells of the first
  row among rows 1 to \<open>min (depth - 1) max_row\<close> that has a cell which is not \<open>None\<close>
  somewhere in columns 1 to \<open>max_column\<close>; it returns no row exactly when every row in
  that range is empty, and then the fallback index of the caller applies.
\<close>

theorem locate_header_first_row:
  "(locate_header ws depth = Some (r, rd) \<longleftrightarrow>
      1 \<le> r \<and> r < depth \<and> r \<le> max_row ws \<and> row_has_content ws r \<and>
      (\<forall>r'. 1 \<le> r' \<and> r' < r \<longrightarrow> \<not> row_has_content ws r') \<and> rd = row_data ws r) \<and>
   (locate_header ws depth = None \<longleftrightarrow>
      (\<forall>r'. 1 \<le> r' \<and> r' < depth \<and> r' \<le> max_row ws \<longrightarrow> \<not> row_has_content ws r'))"
  unfolding locate_header_def header_scan_upt_Some header_scan_None
  by auto

theorem locate_header_first_row_witness:
  "locate_header ex_gap_sheet 10 = Some (2, [Some (VStr ''Name''), None])"
proof -
  have a: "row_data ex_gap_sheet 2 = [Some (VStr ''Name''), None]"
    by (simp add: row_data_def ex_gap_sheet_def sheet_of_rows_def cell_value_at_def upt_rec)
  have b: "row_has_content ex_gap_sheet 2"
    unfolding any_not_none_row_data [symmetric] a by (simp add: any_not_none_def)
  have c: "\<not> row_has_content ex_gap_sheet r'" if "1 \<le> r' \<and> r' < 2" for r'
  proof -
    have "r' = 1" using that by simp
    moreover have "row_data ex_gap_sheet 1 = [None, None]"
      by (simp add: row_data_def ex_gap_sheet_def sheet_of_rows_def cell_value_at_def upt_rec)
    ultimately show ?thesis
      unfolding any_not_none_row_data [symmetric] by (simp add: any_not_none_def)
  qed
  have d: "max_row ex_gap_sheet = 3" by (simp add: ex_gap_sheet_def sheet_of_rows_def)
  show ?thesis
    using locate_header_first_row [of ex_gap_sheet 10 2 "[Some (VStr ''Name''), None]"] a b c d
    by simp
qed

section \<open>The scanned rows and the fallback\<close>

lemma header_scan_cong:
  "(\<And>r. r \<in> set rows \<Longrightarrow> row_data ws r = row_data ws' r) \<Longrightarrow>
   header_scan ws rows = header_scan ws' rows"
  by (induction rows) simp_all

lemma row_data_cong:
  assumes "max_row ws = max_row ws'" "max_column ws = max_column ws'"
    and "\<And>c. cells ws r c = cells ws' r c"
  shows "row_data ws r = row_data ws' r"
  using assms by (simp add: row_data_def cell_value_at_def)

lemma locate_header_None:
  "locate_header ws depth = None \<longleftrightarrow>
      (\<forall>r'. 1 \<le> r' \<and> r' < depth \<and> r' \<le> max_row ws \<longrightarrow> \<not> row_has_content ws r')"
  unfolding locate_header_def header_scan_None by auto

lemma find_header_empty:
  assumes "\<forall>r. 1 \<le> r \<and> r \<le> min 9 (max_row ws) \<longrightarrow> \<not> row_has_content ws r"
  shows "find_header ws = ([], 1)"
proof -
  have "locate_header ws 10 = None"
    unfolding locate_header_None using assms by simp
  then show ?thesis by (simp add: find_header_def)
qed

lemma response_columns_no_headers:
  "headers info = [] \<Longrightarrow> response_columns info = []"
  by (simp add: response_columns_def)

lemma headers_analyze_ws: "headers (analyze_ws slot sname ws n) = fst (find_header ws)"
  by (simp add: analyze_ws_def split: prod.splits)

text \<open>
  Claim C10. The automatic header scan of analyze\_excel.py reads rows 1 to
  \<open>min 9 max_row\<close> only: two sheets with the same extents that agree on rows 1 to 9 get
  the same headers and header row index, whatever row 10 and the rows below hold. When
  every cell of the scanned rows is \<open>None\<close>, nothing is raised: \<open>header_row_idx\<close> keeps
  its initial value 1, \<open>headers\<close> stays the empty list, and the response lists no column
  for the sheet.
\<close>

theorem header_scan_stops_before_row_10:
  "(max_row ws = max_row ws' \<and> max_column ws = max_column ws' \<and>
      (\<forall>r c. r \<le> 9 \<longrightarrow> cells ws r c = cells ws' r c)
      \<longrightarrow> find_header ws = find_header ws') \<and>
   ((\<forall>r. 1 \<le> r \<and> r \<le> min 9 (max_row ws) \<longrightarrow> \<not> row_has_content ws r)
      \<longrightarrow> find_header ws = ([], 1) \<and>
          (wb sname = Some ws \<longrightarrow>
             (\<exists>info. analyze_sheet slot wb sname n = Inr info \<and> headers info = [] \<and>
                     response_columns info = [])))"
proof (intro conjI impI)
  assume a: "max_row ws = max_row ws' \<and> max_column ws = max_column ws' \<and>
      (\<forall>r c. r \<le> 9 \<longrightarrow> cells ws r c = cells ws' r c)"
  have "row_data ws r = row_data ws' r" if "r \<in> set [1..<min 10 (max_row ws + 1)]" for r
  proof -
    have "r \<le> 9" using that by auto
    then show ?thesis using a by (intro row_data_cong) simp_all
  qed
  then have "header_scan ws [1..<min 10 (max_row ws + 1)] = header_scan ws' [1..<min 10 (max_row ws + 1)]"
    by (rule header_scan_cong)
  then have "locate_header ws 10 = locate_header ws' 10"
    using a by (simp add: locate_header_def)
  then show "find_header ws = find_header ws'" by (simp add: find_header_def)
next
  assume e: "\<forall>r. 1 \<le> r \<and> r \<le> min 9 (max_row ws) \<longrightarrow> \<not> row_has_content ws r"
  then show "find_header ws = ([], 1)" by (rule find_header_empty)
next
  assume e: "\<forall>r. 1 \<le> r \<and> r \<le> min 9 (max_row ws) \<longrightarrow> \<not> row_has_content ws r"
    and w: "wb sname = Some ws"
  have h: "headers (analyze_ws slot sname ws n) = []"
    using find_header_empty [OF e] by (simp add: headers_analyze_ws)
  have "analyze_sheet slot wb sname n = Inr (analyze_ws slot sname ws n)"
    using w by (simp add: analyze_sheet_def)
  then show "\<exists>info. analyze_sheet slot wb sname n = Inr info \<and> headers info = [] \<and>
                     response_columns info = []"
    using h response_columns_no_headers by blast
qed

theorem header_scan_stops_before_row_10_witness:
  "find_header ex_late_sheet = find_header ex_blank_sheet \<and>
   find_header ex_late_sheet = ([], 1) \<and>
   cell_value_at ex_late_sheet 10 1 = Some (VStr ''late'') \<and>
   (\<exists>info. analyze_sheet (\<lambda>s. 0) (\<lambda>s. Some ex_late_sheet) ''msme'' 3 = Inr info \<and>
           headers info = [] \<and> response_columns info = [])"
proof -
  have a: "max_row ex_late_sheet = max_row ex_blank_sheet \<and>
      max_column ex_late_sheet = max_column ex_blank_sheet \<and>
      (\<forall>r c. r \<le> 9 \<longrightarrow> cells ex_late_sheet r c = cells ex_blank_sheet r c)"
    by (simp add: ex_late_sheet_def ex_blank_sheet_def)
  have b: "\<forall>r. 1 \<le> r \<and> r \<le> min 9 (max_row ex_late_sheet) \<longrightarrow> \<not> row_has_content ex_late_sheet r"
    by (simp add: ex_late_sheet_def row_has_content_def cell_value_at_def)
  have c: "cell_value_at ex_late_sheet 10 1 = Some (VStr ''late'')"
    by (simp add: ex_late_sheet_def cell_value_at_def)
  note t = header_scan_stops_before_row_10
      [of ex_late_sheet ex_blank_sheet "\<lambda>s. Some ex_late_sheet" "''msme''" "\<lambda>s. 0" 3]
  have t1: "find_header ex_late_sheet = find_header ex_blank_sheet"
    using t a by blast
  have t2: "find_header ex_late_sheet = ([], 1) \<and>
     (\<exists>info. analyze_sheet (\<lambda>s. 0) (\<lambda>s. Some ex_late_sheet) ''msme'' 3 = Inr info \<and>
           headers info = [] \<and> response_columns info = [])"
    using t b by blast
  show ?thesis using t1 t2 c by blast
qed

section \<open>The column type inferencer\<close>

lemma set_fold_observe:
  "set (fold (observe ws c) rows acc) =
     set acc \<union> {type_name v |v. \<exists>r\<in>set rows. cell_value_at ws r c = Some v}"
proof (induction rows arbitrary: acc)
  case Nil
  then show ?case by simp
next
  case (Cons r rows)
  show ?case
  proof (cases "cell_value_at ws r c")
    case None
    then show ?thesis using Cons.IH [of acc] by (auto simp: observe_def)
  next
    case (Some v)
    then have "observe ws c r acc = set_add (type_name v) acc" by (simp add: observe_def)
    moreover have "set (set_add (type_name v) acc) = insert (type_name v) (set acc)"
      by (auto simp: set_add_def)
    ultimately show ?thesis using Cons.IH [of "set_add (type_name v) acc"] Some
      by auto
  qed
qed

lemma distinct_fold_observe:
  "distinct acc \<Longrightarrow> distinct (fold (observe ws c) rows acc)"
proof (induction rows arbitrary: acc)
  case Nil
  then show ?case by simp
next
  case (Cons r rows)
  have "distinct (observe ws c r acc)"
    using Cons.prems by (simp add: observe_def set_add_def split: option.splits)
  then show ?case using Cons.IH by simp
qed

lemma set_type_window:
  "set (type_window ws h) = {r. h < r \<and> r \<le> h + 19 \<and> r \<le> max_row ws}"
  by (auto simp: type_window_def)

lemma type_name_not_sentinel: "type_name v \<noteq> ''Empty/None''"
  by (cases v) simp_all

lemma set_col_types_of:
  "set (col_types_of ws h c) =
     {type_name v |v. \<exists>r. h < r \<and> r \<le> h + 19 \<and> r \<le> max_row ws \<and> cell_value_at ws r c = Some v}"
  unfolding col_types_of_def set_fold_observe set_type_window by auto

text \<open>
  Claim C3. For every column, header row \<open>h\<close> and sheet, the type loop reads the rows
  \<open>h + 1\<close> to \<open>min (h + 19) max_row\<close>. When every cell of the column in these rows is
  \<open>None\<close>, the inferred types are exactly the one sentinel label \<open>Empty/None\<close>. Otherwise
  they are the distinct kind labels of the cells of the window that are not \<open>None\<close>,
  each once, and the sentinel is not among them.
\<close>

theorem infer_types_observed_kinds:
  "(if \<forall>r. h < r \<and> r \<le> h + 19 \<and> r \<le> max_row ws \<longrightarrow> cell_value_at ws r c = None
    then infer_types slot ws h c = [''Empty/None'']
    else set (infer_types slot ws h c) =
           {type_name v |v. \<exists>r. h < r \<and> r \<le> h + 19 \<and> r \<le> max_row ws \<and>
                                cell_value_at ws r c = Some v} \<and>
         distinct (infer_types slot ws h c) \<and>
         ''Empty/None'' \<notin> set (infer_types slot ws h c))"
proof (cases "\<forall>r. h < r \<and> r \<le> h + 19 \<and> r \<le> max_row ws \<longrightarrow> cell_value_at ws r c = None")
  case True
  then have "set (col_types_of ws h c) = {}"
    unfolding set_col_types_of by auto
  then have "col_types_of ws h c = []" by simp
  then show ?thesis using True by (simp add: infer_types_def)
next
  case False
  then obtain r v where "h < r \<and> r \<le> h + 19 \<and> r \<le> max_row ws" "cell_value_at ws r c = Some v"
    by auto
  then have "type_name v \<in> set (col_types_of ws h c)"
    unfolding set_col_types_of by blast
  then have ne: "col_types_of ws h c \<noteq> []" by auto
  then have eq: "infer_types slot ws h c = list_of_set slot (col_types_of ws h c)"
    by (simp add: infer_types_def)
  have d: "distinct (col_types_of ws h c)"
    unfolding col_types_of_def by (rule distinct_fold_observe) simp
  have s: "set (infer_types slot ws h c) = set (col_types_of ws h c)"
    unfolding eq list_of_set_def by simp
  have n: "''Empty/None'' \<notin> set (col_types_of ws h c)"
    unfolding set_col_types_of using type_name_not_sentinel by (auto dest: sym)
  have "set (infer_types slot ws h c) =
           {type_name v |v. \<exists>r. h < r \<and> r \<le> h + 19 \<and> r \<le> max_row ws \<and>
                                cell_value_at ws r c = Some v} \<and>
         distinct (infer_types slot ws h c) \<and>
         ''Empty/None'' \<notin> set (infer_types slot ws h c)"
    using d n s by (simp add: set_col_types_of eq list_of_set_def)
  then show ?thesis by (subst if_not_P [OF False])
qed

theorem infer_types_observed_kinds_witness:
  "infer_types (\<lambda>s. 0) ex_late_sheet 1 2 = [''Empty/None''] \<and>
   set (infer_types (\<lambda>s. 0) ex_late_sheet 1 1) = {''str''}"
proof -
  have a: "\<forall>r. 1 < r \<and> r \<le> 1 + 19 \<and> r \<le> max_row ex_late_sheet \<longrightarrow> cell_value_at ex_late_sheet r 2 = None"
    by (simp add: ex_late_sheet_def cell_value_at_def)
  have b: "\<not> (\<forall>r. 1 < r \<and> r \<le> 1 + 19 \<and> r \<le> max_row ex_late_sheet \<longrightarrow> cell_value_at ex_late_sheet r 1 = None)"
  proof -
    have "cell_value_at ex_late_sheet 10 1 = Some (VStr ''late'')"
      by (simp add: ex_late_sheet_def cell_value_at_def)
    moreover have "(1::nat) < 10 \<and> (10::nat) \<le> 1 + 19 \<and> 10 \<le> max_row ex_late_sheet"
      by (simp add: ex_late_sheet_def)
    ultimately show ?thesis by (metis option.distinct(1))
  qed
  have c: "{type_name v |v. \<exists>r. 1 < r \<and> r \<le> 1 + 19 \<and> r \<le> max_row ex_late_sheet \<and>
                                cell_value_at ex_late_sheet r 1 = Some v} = {''str''}"
  proof (intro equalityI subsetI)
    fix x
    assume "x \<in> {type_name v |v. \<exists>r. 1 < r \<and> r \<le> 1 + 19 \<and> r \<le> max_row ex_late_sheet \<and>
                                cell_value_at ex_late_sheet r 1 = Some v}"
    then show "x \<in> {''str''}"
      by (auto simp: ex_late_sheet_def cell_value_at_def split: if_splits)
  next
    fix x :: string
    assume "x \<in> {''str''}"
    then have "x = type_name (VStr ''late'')" by simp
    moreover have "(1::nat) < 10 \<and> (10::nat) \<le> 1 + 19 \<and> 10 \<le> max_row ex_late_sheet \<and>
        cell_value_at ex_late_sheet 10 1 = Some (VStr ''late'')"
      by (simp add: ex_late_sheet_def cell_value_at_def)
    ultimately show "x \<in> {type_name v |v. \<exists>r. 1 < r \<and> r \<le> 1 + 19 \<and> r \<le> max_row ex_late_sheet \<and>
                                cell_value_at ex_late_sheet r 1 = Some v}"
      by blast
  qed
  have t1: "infer_types (\<lambda>s. 0) ex_late_sheet 1 2 = [''Empty/None'']"
    using infer_types_observed_kinds [of 1 ex_late_sheet 2 "\<lambda>s. 0"] a by simp
  have t2: "set (infer_types (\<lambda>s. 0) ex_late_sheet 1 1) = {''str''}"
  proof -
    have "set (infer_types (\<lambda>s. 0) ex_late_sheet 1 1) =
           {type_name v |v. \<exists>r. 1 < r \<and> r \<le> 1 + 19 \<and> r \<le> max_row ex_late_sheet \<and>
                                cell_value_at ex_late_sheet r 1 = Some v} \<and>
         distinct (infer_types (\<lambda>s. 0) ex_late_sheet 1 1) \<and>
         ''Empty/None'' \<notin> set (infer_types (\<lambda>s. 0) ex_late_sheet 1 1)"
      using infer_types_observed_kinds [of 1 ex_late_sheet 1 "\<lambda>s. 0"]
      unfolding if_not_P [OF b] .
    then show ?thesis unfolding c by blast
  qed
  show ?thesis using t1 t2 by simp
qed

section \<open>Reported column names\<close>

lemma map_filter_Some:
  "map Some (List.map_filter f xs) = filter (\<lambda>v. v \<noteq> None) (map f xs)"
  by (induction xs) (auto simp: map_filter_simps split: option.splits)

lemma collect_headers_row:
  "map Some (collect_headers ws h) = filter (\<lambda>v. v \<noteq> None) (row_data ws h)"
  by (simp add: collect_headers_def row_data_def map_filter_Some)

lemma final_columns_plain:
  "final_columns hdrs dt descr =
     map (\<lambda>i. \<lparr> name = Some (hdrs ! i), data_type = dt, description = descr i \<rparr>) [0..<length hdrs]"
  by (simp add: final_columns_def)

lemma final_columns_names:
  "map name (final_columns hdrs dt descr) = map Some hdrs"
proof -
  have "map name (final_columns hdrs dt descr) = map (\<lambda>i. Some (hdrs ! i)) [0..<length hdrs]"
    by (simp add: final_columns_plain comp_def)
  also have "\<dots> = map Some (map (\<lambda>i. hdrs ! i) [0..<length hdrs])"
    by (simp add: comp_def)
  also have "\<dots> = map Some hdrs" by (simp only: map_nth)
  finally show ?thesis .
qed

text \<open>
  Claim C9. In analyze\_excel\_final.py the index of the \<open>columns\<close> comprehension runs
  over \<open>range(len(headers))\<close>, so the test \<open>i < len(headers)\<close> always holds and the
  placeholder branch is never taken: the comprehension equals the one without the test,
  and the reported names are the collected header values, which are the cells of the
  header row (row 2 for msme, row 3 for charter) that are not \<open>None\<close>, in column order.
\<close>

theorem final_placeholder_unreachable:
  "final_columns hdrs dt descr =
     map (\<lambda>i. \<lparr> name = Some (hdrs ! i), data_type = dt, description = descr i \<rparr>) [0..<length hdrs] \<and>
   map name (msme_columns ws) = map Some (msme_headers ws) \<and>
   map Some (msme_headers ws) = filter (\<lambda>v. v \<noteq> None) (row_data ws 2) \<and>
   map name (charter_columns ws) = map Some (charter_headers ws) \<and>
   map Some (charter_headers ws) = filter (\<lambda>v. v \<noteq> None) (row_data ws 3)"
  by (simp add: final_columns_plain [symmetric] msme_columns_def charter_columns_def
      final_columns_names msme_headers_def charter_headers_def collect_headers_row
      msme_header_row_def charter_header_row_def)

theorem final_placeholder_unreachable_witness:
  "map name (msme_columns ex_msme_long) =
     [Some (VStr ''S.No''), Some (VStr ''Scheme''), Some (VStr ''Department''),
      Some (VStr ''Benefit''), Some (VStr ''Eligibility''), Some (VStr ''Contact'')]"
proof -
  have "map name (msme_columns ex_msme_long) = filter (\<lambda>v. v \<noteq> None) (row_data ex_msme_long 2)"
    using final_placeholder_unreachable [of _ _ _ ex_msme_long] by simp
  moreover have "filter (\<lambda>v. v \<noteq> None) (row_data ex_msme_long 2) =
     [Some (VStr ''S.No''), Some (VStr ''Scheme''), Some (VStr ''Department''),
      Some (VStr ''Benefit''), Some (VStr ''Eligibility''), Some (VStr ''Contact'')]"
    by code_simp
  ultimately show ?thesis by simp
qed

lemma length_response_columns:
  "length (response_columns info) = length (headers info)"
  by (simp add: response_columns_def)

lemma length_row_data: "length (row_data ws r) = max_column ws"
  by (simp add: row_data_def)

lemma header_scan_Some_row:
  "header_scan ws rows = Some (r, rd) \<Longrightarrow> rd = row_data ws r"
  by (induction rows) (auto split: if_splits)

lemma find_header_length:
  "length (fst (find_header ws)) = (if locate_header ws 10 = None then 0 else max_column ws)"
proof (cases "locate_header ws 10")
  case None
  then show ?thesis by (simp add: find_header_def)
next
  case (Some p)
  obtain r rd where p: "p = (r, rd)" by (cases p)
  have "rd = row_data ws r" using Some p header_scan_Some_row [of ws _ r rd] by (simp add: locate_header_def)
  then show ?thesis using Some p by (simp add: find_header_def length_row_data)
qed

text \<open>
  Claim C2, as amended. In analyze\_excel\_final.py the number of reported column names
  of a sheet is the number of cells of its header row that are not \<open>None\<close>. In
  analyze\_excel.py it is the length of the detected header row: \<open>max_column\<close> when the
  scan found a header row and 0 otherwise.
\<close>

theorem reported_column_counts:
  "length (final_columns_of (msme_final ws)) = count_non_empty (row_data ws msme_header_row) \<and>
   length (final_columns_of (charter_final ws)) = count_non_empty (row_data ws charter_header_row) \<and>
   length (columns (sheet_response (analyze_ws slot sname ws n) purpose)) = length (fst (find_header ws)) \<and>
   length (fst (find_header ws)) = (if locate_header ws 10 = None then 0 else max_column ws)"
proof -
  have "length (msme_columns ws) = length (map Some (msme_headers ws))"
    by (simp add: msme_columns_def final_columns_def)
  then have a: "length (final_columns_of (msme_final ws)) = count_non_empty (row_data ws msme_header_row)"
    by (simp only: msme_headers_def collect_headers_row count_non_empty_def msme_final_def
        final_sheet.simps)
  have "length (charter_columns ws) = length (map Some (charter_headers ws))"
    by (simp add: charter_columns_def final_columns_def)
  then have b: "length (final_columns_of (charter_final ws)) = count_non_empty (row_data ws charter_header_row)"
    by (simp only: charter_headers_def collect_headers_row count_non_empty_def charter_final_def
        final_sheet.simps)
  have c: "length (columns (sheet_response (analyze_ws slot sname ws n) purpose)) = length (fst (find_header ws))"
    by (simp add: sheet_response_def length_response_columns analyze_ws_def split: prod.splits)
  show ?thesis using a b c find_header_length by blast
qed

theorem reported_column_counts_witness:
  "length (final_columns_of (msme_final ex_msme_long)) = 6 \<and>
   length (columns (sheet_response (analyze_ws slot_a ''msme'' ex_gap_sheet 3) ''purpose'')) = 2"
proof -
  have a: "count_non_empty (row_data ex_msme_long msme_header_row) = 6" by code_simp
  have b: "locate_header ex_gap_sheet 10 \<noteq> None" by code_simp
  have c: "max_column ex_gap_sheet = 2" by code_simp
  show ?thesis
    using reported_column_counts [of ex_msme_long slot_a "''msme''" 3 "''purpose''"]
      reported_column_counts [of ex_gap_sheet slot_a "''msme''" 3 "''purpose''"] a b c
    by simp
qed

text \<open>
  The claim as stated fails for analyze\_excel.py: a header row with one cell of content
  and one empty cell yields two reported column names, the second being \<open>None\<close>.
\<close>

theorem column_count_counterexample:
  "fst (find_header ex_gap_sheet) = [Some (VStr ''Name''), None] \<and>
   count_non_empty (fst (find_header ex_gap_sheet)) = 1 \<and>
   map name (columns (sheet_response (analyze_ws slot_a ''msme'' ex_gap_sheet 3) ''purpose'')) =
     [Some (VStr ''Name''), None] \<and>
   length (columns (sheet_response (analyze_ws slot_a ''msme'' ex_gap_sheet 3) ''purpose'')) \<noteq>
     count_non_empty (fst (find_header ex_gap_sheet))"
  by code_simp

section \<open>The sample rows of the sheet msme\<close>

lemma collect_samples_3_5_10:
  assumes "5 \<le> max_row ws" "any_not_none (sample_row ws n 3)" "any_not_none (sample_row ws n 5)"
  shows "take 2 (collect_samples ws [3, 5, 10] n) = [sample_row ws n 3, sample_row ws n 5]"
  using assms by (simp add: collect_samples_def)

text \<open>
  Claim C8, as amended. In analyze\_excel\_final.py the header row of the sheet msme is
  row 2 and its headers are the cells of row 2 that are not \<open>None\<close>. When the sheet has
  at least five rows and rows 3 and 5 each have a cell that is not \<open>None\<close> in columns 1
  to \<open>n\<close>, where \<open>n\<close> is the number of headers, the reported sample rows are exactly
  two: rows 3 and 5, each with the raw cell values of columns 1 to \<open>n\<close>.
\<close>

theorem msme_samples_rows_3_and_5:
  assumes "5 \<le> max_row ws"
    and "n = length (msme_headers ws)"
    and "any_not_none (map (\<lambda>col. cell_value_at ws 3 col) [1..<n + 1])"
    and "any_not_none (map (\<lambda>col. cell_value_at ws 5 col) [1..<n + 1])"
  shows "msme_header_row = 2 \<and>
         map Some (msme_headers ws) = filter (\<lambda>v. v \<noteq> None) (row_data ws 2) \<and>
         final_sample_rows (msme_final ws) =
           [map (\<lambda>col. cell_value_at ws 3 col) [1..<n + 1],
            map (\<lambda>col. cell_value_at ws 5 col) [1..<n + 1]]"
proof -
  have "take 2 (collect_samples ws [3, 5, 10] n) = [sample_row ws n 3, sample_row ws n 5]"
    using assms(1,3,4) by (intro collect_samples_3_5_10) (simp_all add: sample_row_def)
  then have "final_sample_rows (msme_final ws) =
           [map (\<lambda>col. cell_value_at ws 3 col) [1..<n + 1],
            map (\<lambda>col. cell_value_at ws 5 col) [1..<n + 1]]"
    using assms(2) by (simp add: msme_final_def msme_samples_def sample_row_def)
  then show ?thesis
    by (simp add: msme_header_row_def msme_headers_def collect_headers_row)
qed

theorem msme_samples_rows_3_and_5_witness:
  "final_sample_rows (msme_final ex_msme_long) =
     [[Some (VInt 1), Some (VStr ''Capital subsidy''), Some (VStr ''MSME''),
       Some (VStr ''25 percent''), Some (VStr ''Micro units''), Some (VStr ''DIC'')],
      [Some (VInt 3), Some (VStr ''Generator subsidy''), Some (VStr ''MSME''),
       Some (VStr ''25 percent''), Some (VStr ''All units''), Some (VStr ''DIC'')]]"
proof -
  have a: "5 \<le> max_row ex_msme_long" by code_simp
  have b: "6 = length (msme_headers ex_msme_long)" by code_simp
  have r3: "map (\<lambda>col. cell_value_at ex_msme_long 3 col) [1..<6 + 1] =
      [Some (VInt 1), Some (VStr ''Capital subsidy''), Some (VStr ''MSME''),
       Some (VStr ''25 percent''), Some (VStr ''Micro units''), Some (VStr ''DIC'')]"
    by code_simp
  have r5: "map (\<lambda>col. cell_value_at ex_msme_long 5 col) [1..<6 + 1] =
      [Some (VInt 3), Some (VStr ''Generator subsidy''), Some (VStr ''MSME''),
       Some (VStr ''25 percent''), Some (VStr ''All units''), Some (VStr ''DIC'')]"
    by code_simp
  have c: "any_not_none (map (\<lambda>col. cell_value_at ex_msme_long 3 col) [1..<6 + 1])"
    unfolding r3 by (simp add: any_not_none_def)
  have d: "any_not_none (map (\<lambda>col. cell_value_at ex_msme_long 5 col) [1..<6 + 1])"
    unfolding r5 by (simp add: any_not_none_def)
  show ?thesis
    using msme_samples_rows_3_and_5 [OF a b c d] unfolding r3 r5 by simp
qed

text \<open>
  The claim as stated fails on a sheet with a title row, six headers and two rows of
  data: row 5 is beyond \<open>max_row\<close>, so one sample row is reported and not two.
\<close>

theorem msme_sample_count_counterexample:
  "max_row ex_msme_short = 4 \<and>
   msme_headers ex_msme_short =
     [VStr ''S.No'', VStr ''Scheme'', VStr ''Department'', VStr ''Benefit'',
      VStr ''Eligibility'', VStr ''Contact''] \<and>
   final_sample_rows (msme_final ex_msme_short) =
     [[Some (VInt 1), Some (VStr ''Capital subsidy''), Some (VStr ''MSME''),
       Some (VStr ''25 percent''), Some (VStr ''Micro units''), Some (VStr ''DIC'')]] \<and>
   length (final_sample_rows (msme_final ex_msme_short)) \<noteq> 2"
  by code_simp

section \<open>The field-name classifier\<close>










section \<open>The sheet loop and the exit status\<close>

lemma sheet_step_update:
  "sheet_step e sname acc =
     AList.update sname (case try_sheet e sname of Inr r \<Rightarrow> Analysis r | Inl err \<Rightarrow> Error err) acc"
  by (simp add: sheet_step_def split: sum.splits)

lemma map_of_sheet_loop:
  "map_of (fold (sheet_step e) names acc) sname =
     (if sname \<in> set names
      then Some (case try_sheet e sname of Inr r \<Rightarrow> Analysis r | Inl err \<Rightarrow> Error err)
      else map_of acc sname)"
proof (induction names arbitrary: acc)
  case Nil
  then show ?case by simp
next
  case (Cons n names)
  have "map_of (fold (sheet_step e) (n # names) acc) sname =
     map_of (fold (sheet_step e) names (sheet_step e n acc)) sname" by simp
  also have "\<dots> = (if sname \<in> set names
      then Some (case try_sheet e sname of Inr r \<Rightarrow> Analysis r | Inl err \<Rightarrow> Error err)
      else map_of (sheet_step e n acc) sname)"
    by (rule Cons.IH)
  also have "map_of (sheet_step e n acc) sname =
     (if sname = n then Some (case try_sheet e sname of Inr r \<Rightarrow> Analysis r | Inl err \<Rightarrow> Error err)
      else map_of acc sname)"
    unfolding sheet_step_update [of e n acc] by (simp add: update_conv')
  finally show ?case by simp
qed

lemma keys_sheet_loop:
  "fst ` set (fold (sheet_step e) names acc) = set names \<union> fst ` set acc"
proof (induction names arbitrary: acc)
  case Nil
  then show ?case by simp
next
  case (Cons n names)
  have "fst ` set (fold (sheet_step e) (n # names) acc) =
     fst ` set (fold (sheet_step e) names (sheet_step e n acc))" by simp
  also have "\<dots> = set names \<union> fst ` set (sheet_step e n acc)"
    by (rule Cons.IH)
  also have "fst ` set (sheet_step e n acc) = {n} \<union> fst ` set acc"
    unfolding sheet_step_update [of e n acc] by (rule dom_update)
  finally show ?case by auto
qed

lemma try_sheet_cong:
  "read_excel e sname = read_excel e' sname \<Longrightarrow> try_sheet e sname = try_sheet e' sname"
  by (simp add: try_sheet_def)

text \<open>
  Claim C6. In the dataframe-based script an exception raised while a sheet is analysed
  is caught and stored as that sheet's entry, and the loop goes on: after the loop every
  sheet name has an entry, which is the sheet's analysis when its \<open>try\<close> block completes
  and the caught exception otherwise. The entry of a sheet depends on that sheet alone:
  it is the same in any run that reads the same dataframe for it, whatever happens to
  the other sheets. When the report is written, it holds these entries.
\<close>

theorem sheet_failures_isolated:
  "(sname \<in> set names \<longrightarrow>
      map_of (analysis_sheets (analyze_all e names)) sname =
        Some (case try_sheet e sname of Inr r \<Rightarrow> Analysis r | Inl err \<Rightarrow> Error err)) \<and>
   fst ` set (analysis_sheets (analyze_all e names)) = set names \<and>
   (sname \<in> set names \<and> read_excel e sname = read_excel e' sname \<longrightarrow>
      map_of (analysis_sheets (analyze_all e names)) sname =
      map_of (analysis_sheets (analyze_all e' names)) sname) \<and>
   (path_exists e \<and> load_workbook e = Inr names \<and> open_output e = None \<and>
    json_dump e (analyze_all e names) = None \<longrightarrow>
      output_file (comprehensive e) = Written (analyze_all e names) \<and>
      printed_report (comprehensive e) = Some (analyze_all e names))"
proof (intro conjI impI)
  assume "sname \<in> set names"
  then show "map_of (analysis_sheets (analyze_all e names)) sname =
        Some (case try_sheet e sname of Inr r \<Rightarrow> Analysis r | Inl err \<Rightarrow> Error err)"
    by (simp add: analyze_all_def map_of_sheet_loop)
next
  show "fst ` set (analysis_sheets (analyze_all e names)) = set names"
    by (simp add: analyze_all_def keys_sheet_loop)
next
  assume "sname \<in> set names \<and> read_excel e sname = read_excel e' sname"
  then show "map_of (analysis_sheets (analyze_all e names)) sname =
      map_of (analysis_sheets (analyze_all e' names)) sname"
    using try_sheet_cong [of e sname e'] by (simp add: analyze_all_def map_of_sheet_loop)
next
  assume h: "path_exists e \<and> load_workbook e = Inr names \<and> open_output e = None \<and>
    json_dump e (analyze_all e names) = None"
  then show "output_file (comprehensive e) = Written (analyze_all e names)"
    by (simp add: comprehensive_def Let_def)
  from h show "printed_report (comprehensive e) = Some (analyze_all e names)"
    by (simp add: comprehensive_def Let_def)
qed

theorem sheet_failures_isolated_witness:
  "map_of (analysis_sheets (analyze_all ex_env [''Stock'', ''Summary'', ''Outlets''])) ''Summary'' =
     Some (Error AttributeError) \<and>
   (\<exists>r. map_of (analysis_sheets (analyze_all ex_env [''Stock'', ''Summary'', ''Outlets''])) ''Outlets'' =
     Some (Analysis r)) \<and>
   output_file (comprehensive ex_env) = Written (analyze_all ex_env [''Stock'', ''Summary'', ''Outlets''])"
proof -
  have s: "try_sheet ex_env ''Summary'' = Inl AttributeError" by code_simp
  have "(case try_sheet ex_env ''Outlets'' of Inr r \<Rightarrow> True | Inl err \<Rightarrow> False)" by code_simp
  then obtain r where o: "try_sheet ex_env ''Outlets'' = Inr r" by (auto split: sum.splits)
  have m1: "''Summary'' \<in> set [''Stock'', ''Summary'', ''Outlets'']" by simp
  have m2: "''Outlets'' \<in> set [''Stock'', ''Summary'', ''Outlets'']" by simp
  have env: "path_exists ex_env \<and> load_workbook ex_env = Inr [''Stock'', ''Summary'', ''Outlets''] \<and>
     open_output ex_env = None \<and>
     json_dump ex_env (analyze_all ex_env [''Stock'', ''Summary'', ''Outlets'']) = None"
    by (simp add: ex_env_def ex_dump_ok_def)
  have t1: "map_of (analysis_sheets (analyze_all ex_env [''Stock'', ''Summary'', ''Outlets''])) ''Summary'' =
     Some (Error AttributeError)"
    using sheet_failures_isolated [of "''Summary''" "[''Stock'', ''Summary'', ''Outlets'']" ex_env ex_env] m1 s
    by simp
  have t2: "map_of (analysis_sheets (analyze_all ex_env [''Stock'', ''Summary'', ''Outlets''])) ''Outlets'' =
     Some (Analysis r)"
    using sheet_failures_isolated [of "''Outlets''" "[''Stock'', ''Summary'', ''Outlets'']" ex_env ex_env] m2 o
    by simp
  have t3: "output_file (comprehensive ex_env) = Written (analyze_all ex_env [''Stock'', ''Summary'', ''Outlets''])"
    using sheet_failures_isolated [of "''Outlets''" "[''Stock'', ''Summary'', ''Outlets'']" ex_env ex_env] env
    by blast
  show ?thesis using t1 t2 t3 by blast
qed

text \<open>
  Claim C5, as amended. When the input path does not exist, the script prints the error
  line and ends with status 1, and the output file is not written. When the path exists,
  the workbook loads, the output file opens and the report serialises, the run ends with
  status 0 and the output file holds the report.
\<close>

theorem missing_file_exit_status:
  "(\<not> path_exists e \<longrightarrow>
      exit_status (comprehensive e) = 1 \<and>
      error_line (comprehensive e) = Some (''Error: File not found at '' @ excel_path) \<and>
      output_file (comprehensive e) = NotWritten \<and>
      printed_report (comprehensive e) = None) \<and>
   (path_exists e \<and> load_workbook e = Inr names \<and> open_output e = None \<and>
    json_dump e (analyze_all e names) = None \<longrightarrow>
      exit_status (comprehensive e) = 0 \<and>
      error_line (comprehensive e) = None \<and>
      output_file (comprehensive e) = Written (analyze_all e names))"
  by (simp add: comprehensive_def Let_def)

theorem missing_file_exit_status_witness:
  "exit_status (comprehensive ex_env_missing) = 1 \<and>
   output_file (comprehensive ex_env_missing) = NotWritten \<and>
   exit_status (comprehensive ex_env) = 0"
proof -
  have a: "\<not> path_exists ex_env_missing" by (simp add: ex_env_missing_def)
  have b: "path_exists ex_env \<and> load_workbook ex_env = Inr [''Stock'', ''Summary'', ''Outlets''] \<and>
     open_output ex_env = None \<and>
     json_dump ex_env (analyze_all ex_env [''Stock'', ''Summary'', ''Outlets'']) = None"
    by (simp add: ex_env_def ex_dump_ok_def)
  show ?thesis
    using missing_file_exit_status [of ex_env_missing "[]"]
      missing_file_exit_status [of ex_env "[''Stock'', ''Summary'', ''Outlets'']"] a b
    by blast
qed

text \<open>
  The claim as stated fails for an input file that exists and that \<open>load_workbook\<close>
  cannot read: the call is outside the \<open>try\<close> block, so the exception ends the process
  with status 1.
\<close>

theorem existing_file_exit_counterexample:
  "path_exists ex_env_unreadable \<and>
   exit_status (comprehensive ex_env_unreadable) = 1 \<and>
   exit_status (comprehensive ex_env_unreadable) \<noteq> 0 \<and>
   output_file (comprehensive ex_env_unreadable) = NotWritten"
  by (simp add: ex_env_unreadable_def ex_env_def comprehensive_def)

section \<open>Repeated runs\<close>







end
